theory Spec2Isabelle
  imports Complex_Main "HOL-Library.Char_ord" "HOL-Library.List_Lexorder" "HOL-Library.Multiset"
begin

section \<open>Values received from the remote API\<close>

text \<open>
  The freight marketplace answers with JSON. A decoded payload is a tree of Python values:
  \<open>None\<close>, booleans, numbers, strings, lists and dictionaries. Numbers are kept as exact
  rationals: the model idealises Python's and numpy's binary floating point to exact
  arithmetic, so every rounding below is an exact decimal rounding. A dictionary is an
  association list read with \<open>map_of\<close>.
\<close>

datatype json =
    JNull
  | JBool bool
  | JNum rat
  | JStr string
  | JArr "json list"
  | JObj "(string \<times> json) list"

text \<open>The exceptions the modelled code can raise.\<close>

datatype py_error =
    AttributeError
  | TypeError
  | KeyError
  | IndexError
  | UnboundLocalError
  | ZeroDivisionError
  | HTTPError

text \<open>\<open>x.get(k, d)\<close>: only a dictionary has a \<open>get\<close> method.\<close>

definition dict_get :: "json \<Rightarrow> string \<Rightarrow> json \<Rightarrow> py_error + json" where
  "dict_get x k d =
     (case x of
        JObj kvs \<Rightarrow> Inr (case map_of kvs k of Some v \<Rightarrow> v | None \<Rightarrow> d)
      | _ \<Rightarrow> Inl AttributeError)"

text \<open>\<open>len(x)\<close>: defined on lists, strings and dictionaries, a \<open>TypeError\<close> otherwise.\<close>

definition py_len :: "json \<Rightarrow> py_error + nat" where
  "py_len x =
     (case x of
        JArr xs \<Rightarrow> Inr (length xs)
      | JStr s \<Rightarrow> Inr (length s)
      | JObj kvs \<Rightarrow> Inr (length (remdups (map fst kvs)))
      | _ \<Rightarrow> Inl TypeError)"

text \<open>
  \<open>x[0]\<close> and \<open>x[-1]\<close>, used only after \<open>len(x) >= 2\<close> has been checked. A dictionary
  decoded from JSON has string keys only, so an integer subscript is a \<open>KeyError\<close>.
\<close>

definition py_first :: "json \<Rightarrow> py_error + json" where
  "py_first x =
     (case x of
        JArr xs \<Rightarrow> (case xs of [] \<Rightarrow> Inl IndexError | y # _ \<Rightarrow> Inr y)
      | JStr s \<Rightarrow> (case s of [] \<Rightarrow> Inl IndexError | c # _ \<Rightarrow> Inr (JStr [c]))
      | JObj _ \<Rightarrow> Inl KeyError
      | _ \<Rightarrow> Inl TypeError)"

definition py_last :: "json \<Rightarrow> py_error + json" where
  "py_last x =
     (case x of
        JArr xs \<Rightarrow> (if xs = [] then Inl IndexError else Inr (last xs))
      | JStr s \<Rightarrow> (if s = [] then Inl IndexError else Inr (JStr [last s]))
      | JObj _ \<Rightarrow> Inl KeyError
      | _ \<Rightarrow> Inl TypeError)"

text \<open>
  \<open>str.upper\<close>, on the ASCII letters. Python's case mapping of characters beyond ASCII
  is outside the model: such bytes are left as they are.
\<close>

definition upper_char :: "char \<Rightarrow> char" where
  "upper_char c =
     (case map_of (zip ''abcdefghijklmnopqrstuvwxyz'' ''ABCDEFGHIJKLMNOPQRSTUVWXYZ'') c of
        Some u \<Rightarrow> u
      | None \<Rightarrow> c)"

definition upper :: "string \<Rightarrow> string" where
  "upper s = map upper_char s"

definition py_upper :: "json \<Rightarrow> py_error + string" where
  "py_upper x = (case x of JStr s \<Rightarrow> Inr (upper s) | _ \<Rightarrow> Inl AttributeError)"

text \<open>Sequencing of computations that may raise.\<close>

definition bind_e :: "py_error + 'a \<Rightarrow> ('a \<Rightarrow> py_error + 'b) \<Rightarrow> py_error + 'b" where
  "bind_e m f = (case m of Inl e \<Rightarrow> Inl e | Inr v \<Rightarrow> f v)"

section \<open>Normalisation of freight proposals\<close>

text \<open>
  The flat record built by \<open>extract_freight_data\<close>. The fields copied verbatim from the
  payload keep whatever value the payload had; the two country codes and the route are
  strings built by the code. The price type is a parameter: normalisation produces
  records whose price is a raw payload value, the detector is modelled on numeric prices.
\<close>

record 'p freight_record =
  freight_id :: json
  status :: json
  price :: 'p
  currency :: json
  capacity :: json
  capacity_unit :: json
  loading_country :: string
  loading_city :: json
  unloading_country :: string
  unloading_city :: json
  route :: string
  distance_km :: json

text \<open>Price and currency (source lines 238--241).\<close>

definition price_information :: "json \<Rightarrow> py_error + json \<times> json" where
  "price_information freight =
     bind_e (dict_get freight ''publication'' (JObj [])) (\<lambda>publication.
     bind_e (dict_get publication ''price'' (JObj [])) (\<lambda>price_info.
     bind_e (dict_get price_info ''value'' (JNum 0)) (\<lambda>price.
     bind_e (dict_get price_info ''currency'' (JStr ''EUR'')) (\<lambda>currency.
     Inr (price, currency)))))"

text \<open>Capacity and its unit (source lines 244--246).\<close>

definition capacity_information :: "json \<Rightarrow> py_error + json \<times> json" where
  "capacity_information freight =
     bind_e (dict_get freight ''capacity'' (JObj [])) (\<lambda>capacity_info.
     bind_e (dict_get capacity_info ''value'' (JNum 0)) (\<lambda>capacity.
     bind_e (dict_get capacity_info ''unit_code'' (JStr ''t'')) (\<lambda>capacity_unit.
     Inr (capacity, capacity_unit))))"

text \<open>Country (upper-cased) and city of one stop (source lines 253--255 and 259--261).\<close>

definition spot_address :: "json \<Rightarrow> py_error + string \<times> json" where
  "spot_address spot =
     bind_e (dict_get spot ''place'' (JObj [])) (\<lambda>place.
     bind_e (dict_get place ''address'' (JObj [])) (\<lambda>address.
     bind_e (dict_get address ''country'' (JStr '''')) (\<lambda>country_raw.
     bind_e (py_upper country_raw) (\<lambda>country.
     bind_e (dict_get address ''locality'' (JStr '''')) (\<lambda>city.
     Inr (country, city))))))"

text \<open>
  The body of the \<open>try\<close> block after \<open>freight\<close> has been bound (source lines 234--278).
  \<open>Inr None\<close>: no exception and nothing appended (fewer than two stops).
\<close>

definition extract_record :: "json \<Rightarrow> json \<Rightarrow> py_error + json freight_record option" where
  "extract_record proposal freight =
     bind_e (dict_get freight ''id'' JNull) (\<lambda>fid.
     bind_e (dict_get proposal ''status'' JNull) (\<lambda>st.
     bind_e (price_information freight) (\<lambda>(pr, cur).
     bind_e (capacity_information freight) (\<lambda>(cap, cap_unit).
     bind_e (dict_get freight ''spots'' (JArr [])) (\<lambda>spots.
     bind_e (py_len spots) (\<lambda>n.
       if 2 \<le> n then
         bind_e (py_first spots) (\<lambda>loading_spot.
         bind_e (spot_address loading_spot) (\<lambda>(lc, lcity).
         bind_e (py_last spots) (\<lambda>unloading_spot.
         bind_e (spot_address unloading_spot) (\<lambda>(uc, ucity).
         bind_e (dict_get freight ''distance'' (JNum 0)) (\<lambda>dist.
         Inr (Some \<lparr> freight_id = fid, status = st, price = pr, currency = cur,
                     capacity = cap, capacity_unit = cap_unit,
                     loading_country = lc, loading_city = lcity,
                     unloading_country = uc, unloading_city = ucity,
                     route = lc @ ''-'' @ uc, distance_km = dist \<rparr>))))))
       else Inr None))))))"

text \<open>
  The \<open>except\<close> handler (source lines 280--282) formats a message with
  \<open>freight.get('id', 'unknown')\<close>. The variable \<open>freight\<close> is the function's local: it is
  unbound until the first successful \<open>proposal.get('freight', {})\<close>, and keeps the value
  of an earlier iteration afterwards. An exception raised inside the handler is not caught.
\<close>

definition except_handler :: "json option \<Rightarrow> py_error + unit" where
  "except_handler fv =
     (case fv of
        None \<Rightarrow> Inl UnboundLocalError
      | Some freight \<Rightarrow> bind_e (dict_get freight ''id'' (JStr ''unknown'')) (\<lambda>_. Inr ()))"

text \<open>
  The \<open>for\<close> loop (source lines 229--282). The first argument is the current binding of
  \<open>freight\<close>, the last the list \<open>freight_data\<close> built so far.
\<close>

fun extract_loop ::
  "json option \<Rightarrow> json list \<Rightarrow> json freight_record list \<Rightarrow> py_error + json freight_record list"
where
  "extract_loop fv [] acc = Inr acc"
| "extract_loop fv (proposal # rest) acc =
     (case dict_get proposal ''freight'' (JObj []) of
        Inl e \<Rightarrow>
          (case except_handler fv of
             Inl e' \<Rightarrow> Inl e'
           | Inr _ \<Rightarrow> extract_loop fv rest acc)
      | Inr freight \<Rightarrow>
          (case extract_record proposal freight of
             Inl e \<Rightarrow>
               (case except_handler (Some freight) of
                  Inl e' \<Rightarrow> Inl e'
                | Inr _ \<Rightarrow> extract_loop (Some freight) rest acc)
           | Inr None \<Rightarrow> extract_loop (Some freight) rest acc
           | Inr (Some r) \<Rightarrow> extract_loop (Some freight) rest (acc @ [r])))"

definition extract_freight_data :: "json list \<Rightarrow> py_error + json freight_record list" where
  "extract_freight_data proposals = extract_loop None proposals []"

text \<open>
  Two notions for stating what the loop returns. \<open>record_of\<close> is the record that one
  proposal contributes when its \<open>try\<close> body is run on its own: none if the body raises
  or finds fewer than two stops. \<open>dict_freight\<close> holds of a proposal that is a dictionary
  whose \<open>freight\<close> is absent or a dictionary.
\<close>

definition record_of :: "json \<Rightarrow> json freight_record option" where
  "record_of proposal =
     (case dict_get proposal ''freight'' (JObj []) of
        Inl e \<Rightarrow> None
      | Inr freight \<Rightarrow>
          (case extract_record proposal freight of Inl e \<Rightarrow> None | Inr ro \<Rightarrow> ro))"

definition dict_freight :: "json \<Rightarrow> bool" where
  "dict_freight proposal =
     (case dict_get proposal ''freight'' (JObj []) of
        Inr (JObj ff) \<Rightarrow> True
      | _ \<Rightarrow> False)"

text \<open>
  A record as normalisation builds it from an offer that carries nothing but the two
  country codes of its end stops and a price: every other field has the default of
  \<open>extract_freight_data\<close>. Used to write concrete inputs.
\<close>

definition sample_record :: "string \<Rightarrow> string \<Rightarrow> 'p \<Rightarrow> 'p freight_record" where
  "sample_record lc uc p =
     \<lparr> freight_id = JNull, status = JNull, price = p, currency = JStr ''EUR'',
       capacity = JNum 0, capacity_unit = JStr ''t'',
       loading_country = lc, loading_city = JStr [],
       unloading_country = uc, unloading_city = JStr [],
       route = lc @ ''-'' @ uc, distance_km = JNum 0 \<rparr>"

section \<open>Detection of arbitrage opportunities\<close>

text \<open>
  Rounding to a number of decimals as \<open>numpy.round\<close> and Python's \<open>round\<close> do it:
  to the nearest multiple of \<open>10^-d\<close>, a tie going to the even neighbour.
\<close>

definition round_half_even :: "rat \<Rightarrow> int" where
  "round_half_even x =
     (let f = \<lfloor>x\<rfloor>; d = x - of_int f
      in if d < 1 / 2 then f
         else if 1 / 2 < d then f + 1
         else if even f then f else f + 1)"

definition np_round :: "nat \<Rightarrow> rat \<Rightarrow> rat" where
  "np_round d x = of_int (round_half_even (x * 10 ^ d)) / 10 ^ d"

text \<open>
  \<open>df.groupby('route')\<close>: the groups are kept in ascending order of their key (pandas
  sorts group keys by default), each with the prices of its records in input order.
\<close>

fun group_insert :: "string \<Rightarrow> rat \<Rightarrow> (string \<times> rat list) list \<Rightarrow> (string \<times> rat list) list" where
  "group_insert k v [] = [(k, [v])]"
| "group_insert k v ((k', vs) # gs) =
     (if k < k' then (k, [v]) # (k', vs) # gs
      else if k = k' then (k', vs @ [v]) # gs
      else (k', vs) # group_insert k v gs)"

definition groupby_route :: "rat freight_record list \<Rightarrow> (string \<times> rat list) list" where
  "groupby_route freight_data = fold (\<lambda>r. group_insert (route r) (price r)) freight_data []"

text \<open>
  One row of the analysis frame, as \<open>to_dict('records')\<close> returns it. The column
  \<open>route\<close> is the field \<open>group_route\<close>, the name \<open>route\<close> being the field of the
  freight record.
\<close>

record route_stats =
  group_route :: string
  price_mean :: rat
  price_min :: rat
  price_max :: rat
  price_count :: nat
  price_volatility :: rat

text \<open>
  The aggregation of one group (source lines 294--305): mean, minimum, maximum and count
  of the prices, rounded to two decimals (the count is an integer and stays as it is),
  then the volatility from the rounded columns, a zero mean replaced by 1.
\<close>

definition analyse_group :: "string \<times> rat list \<Rightarrow> route_stats" where
  "analyse_group g =
     (let prices = snd g;
          mean_r = np_round 2 (sum_list prices / of_nat (length prices));
          min_r = np_round 2 (Min (set prices));
          max_r = np_round 2 (Max (set prices))
      in \<lparr> group_route = fst g, price_mean = mean_r, price_min = min_r, price_max = max_r,
           price_count = length prices,
           price_volatility =
             np_round 3 ((max_r - min_r) / (if mean_r = 0 then 1 else mean_r)) \<rparr>)"

definition route_analysis :: "rat freight_record list \<Rightarrow> route_stats list" where
  "route_analysis freight_data = map analyse_group (groupby_route freight_data)"

text \<open>
  \<open>sort_values(col, ascending=False)\<close> is library code and a parameter of the model. It is
  called with pandas' default \<open>kind='quicksort'\<close>, which is not a stable sort, so nothing
  is assumed about the order of rows that agree in the column: \<open>descending_sort\<close> says
  what is assumed of the parameter, that the result is a rearrangement of the rows that
  is descending in the column.
\<close>

definition descending_sort ::
  "((route_stats \<Rightarrow> rat) \<Rightarrow> route_stats list \<Rightarrow> route_stats list) \<Rightarrow> bool"
where
  "descending_sort sort_values =
     (\<forall>col rows. mset (sort_values col rows) = mset rows \<and>
                 sorted_wrt (\<lambda>a b. col b \<le> col a) (sort_values col rows))"

text \<open>
  One descending sort, the one that keeps the frame order among equal keys. It serves to
  run the detector on concrete inputs.
\<close>

definition stable_sort_desc :: "('a \<Rightarrow> rat) \<Rightarrow> 'a list \<Rightarrow> 'a list" where
  "stable_sort_desc col rows = sort_key (\<lambda>row. - col row) rows"

text \<open>\<open>detect_arbitrage_opportunities\<close> (source lines 286--313), given the sort.\<close>

definition detect_arbitrage_opportunities ::
  "((route_stats \<Rightarrow> rat) \<Rightarrow> route_stats list \<Rightarrow> route_stats list) \<Rightarrow>
   rat freight_record list \<Rightarrow> route_stats list"
where
  "detect_arbitrage_opportunities sort_values freight_data =
     (if freight_data = [] then []
      else sort_values price_volatility
             (filter (\<lambda>row. 1 / 5 < price_volatility row \<and> 2 \<le> price_count row)
                (route_analysis freight_data)))"

text \<open>
  The position at which a route first occurs in the input, for the reading of
  ``first-seen order'' in the specification.
\<close>

definition first_seen :: "string \<Rightarrow> rat freight_record list \<Rightarrow> nat" where
  "first_seen k freight_data = length (takeWhile (\<lambda>r. route r \<noteq> k) freight_data)"

text \<open>
  The ordering that the specification words as ``sorted by volatility descending, ties in
  first-seen order'', as a predicate on the input and a list of rows.
\<close>

definition desc_ties_first_seen :: "rat freight_record list \<Rightarrow> route_stats list \<Rightarrow> bool" where
  "desc_ties_first_seen freight_data rows =
     sorted_wrt (\<lambda>a b. price_volatility b < price_volatility a \<or>
                   (price_volatility a = price_volatility b \<and>
                    first_seen (group_route a) freight_data < first_seen (group_route b) freight_data))
       rows"

section \<open>Access token cache\<close>




text \<open>A value as an operand of arithmetic: numbers, and booleans as 0 and 1.\<close>

definition py_number :: "json \<Rightarrow> py_error + rat" where
  "py_number x =
     (case x of
        JNum q \<Rightarrow> Inr q
      | JBool b \<Rightarrow> Inr (if b then 1 else 0)
      | _ \<Rightarrow> Inl TypeError)"


section \<open>Details of one route\<close>

text \<open>The \<open>statistics\<close> object of the answer; its key \<open>count\<close> is the field \<open>count_stat\<close>.\<close>

record route_statistics =
  count_stat :: nat
  min_price :: rat
  max_price :: rat
  avg_price :: rat
  price_spread :: rat
  volatility :: rat

text \<open>
  The three JSON answers of \<open>get_route_details\<close>: the success payload, the
  ``no offers for this route'' failure, and the failure built by the enclosing
  \<open>except Exception\<close> from an exception raised on the way.
\<close>

datatype route_response =
    RouteFound string "json freight_record list" route_statistics
  | RouteNotFound string
  | RouteError py_error

text \<open>True division: Python raises on a zero divisor.\<close>

definition py_div :: "rat \<Rightarrow> rat \<Rightarrow> py_error + rat" where
  "py_div a b = (if b = 0 then Inl ZeroDivisionError else Inr (a / b))"

text \<open>
  The prices as operands of \<open>min\<close>, \<open>max\<close> and \<open>sum\<close>: \<open>sum\<close> adds every element to 0,
  so a price that is not a number ends in a \<open>TypeError\<close>.
\<close>

fun py_numbers :: "json list \<Rightarrow> py_error + rat list" where
  "py_numbers [] = Inr []"
| "py_numbers (x # xs) =
     bind_e (py_number x) (\<lambda>q. bind_e (py_numbers xs) (\<lambda>qs. Inr (q # qs)))"

text \<open>
  \<open>get_route_details\<close> from the filter on (source lines 407--437); \<open>freight_data\<close> is the
  result of fetching and normalising the proposals (lines 403--405).
\<close>

definition get_route_details :: "json freight_record list \<Rightarrow> string \<Rightarrow> route_response" where
  "get_route_details freight_data route_code =
     (let route_freights = filter (\<lambda>f. route f = upper route_code) freight_data
      in if route_freights = [] then RouteNotFound route_code
         else
           (case bind_e (py_numbers (map price route_freights)) (\<lambda>prices.
                   bind_e (py_div (Max (set prices) - Min (set prices))
                                  (sum_list prices / of_nat (length prices))) (\<lambda>v.
                   Inr \<lparr> count_stat = length route_freights,
                         min_price = Min (set prices),
                         max_price = Max (set prices),
                         avg_price = np_round 2 (sum_list prices / of_nat (length prices)),
                         price_spread = Max (set prices) - Min (set prices),
                         volatility = np_round 3 v \<rparr>)) of
              Inl e \<Rightarrow> RouteError e
            | Inr stats \<Rightarrow> RouteFound (upper route_code) route_freights stats))"

section \<open>Inputs of the examples\<close>


text \<open>
  Three routes in mixed order: one with volatility exactly 0.2, one with a single
  offer, and the route PL-DE of the specification's end-to-end example.
\<close>

definition example_threshold :: "rat freight_record list" where
  "example_threshold =
     [sample_record ''ES'' ''IT'' 90, sample_record ''PL'' ''DE'' 80,
      sample_record ''FR'' ''NL'' 500, sample_record ''PL'' ''DE'' 100,
      sample_record ''ES'' ''IT'' 110, sample_record ''PL'' ''DE'' 160]"

text \<open>Two routes with the same volatility, PL-DE seen before DE-FR.\<close>

definition example_ties :: "rat freight_record list" where
  "example_ties =
     [sample_record ''PL'' ''DE'' 100, sample_record ''PL'' ''DE'' 150,
      sample_record ''DE'' ''FR'' 100, sample_record ''DE'' ''FR'' 150]"

text \<open>The same records with DE-FR seen before PL-DE.\<close>

definition example_ties_swapped :: "rat freight_record list" where
  "example_ties_swapped =
     [sample_record ''DE'' ''FR'' 100, sample_record ''DE'' ''FR'' 150,
      sample_record ''PL'' ''DE'' 100, sample_record ''PL'' ''DE'' 150]"

section \<open>Properties of normalisation\<close>

lemma bind_e_Inr:
  "bind_e m f = Inr y \<longleftrightarrow> (\<exists>v. m = Inr v \<and> f v = Inr y)"
  by (cases m) (simp_all add: bind_e_def)

lemma upper_char_not_lower: "upper_char c \<notin> set ''abcdefghijklmnopqrstuvwxyz''"
proof (cases "c \<in> set ''abcdefghijklmnopqrstuvwxyz''")
  case True
  then show ?thesis by (auto simp: upper_char_def)
next
  case False
  then show ?thesis by (simp add: upper_char_def)
qed

lemma upper_no_lower: "set (upper s) \<inter> set ''abcdefghijklmnopqrstuvwxyz'' = {}"
  using upper_char_not_lower by (auto simp: upper_def simp del: set_simps)

lemma py_upper_Inr: "py_upper x = Inr c \<Longrightarrow> \<exists>raw. c = upper raw"
  by (cases x) (auto simp: py_upper_def)

lemma spot_address_upper:
  "spot_address spot = Inr (c, city) \<Longrightarrow> \<exists>raw. c = upper raw"
  by (auto simp: spot_address_def bind_e_Inr dest: py_upper_Inr)

lemma extract_record_route:
  assumes "extract_record proposal freight = Inr (Some r)"
  shows "route r = loading_country r @ ''-'' @ unloading_country r
         \<and> (\<exists>raw. loading_country r = upper raw) \<and> (\<exists>raw. unloading_country r = upper raw)"
  using assms
  by (auto simp: extract_record_def bind_e_Inr split: if_splits dest: spot_address_upper)

text \<open>
  Whatever holds of every record that the \<open>try\<close> body can build, and of the records
  collected so far, holds of every record the loop returns.
\<close>

lemma extract_loop_invariant:
  assumes "extract_loop fv proposals acc = Inr records"
    and "\<forall>r \<in> set acc. P r"
    and "\<And>proposal freight r. extract_record proposal freight = Inr (Some r) \<Longrightarrow> P r"
  shows "\<forall>r \<in> set records. P r"
  using assms(1,2)
proof (induction proposals arbitrary: fv acc)
  case Nil
  then show ?case by simp
next
  case (Cons p ps)
  show ?case
  proof (cases "dict_get p ''freight'' (JObj [])")
    case (Inl e)
    with Cons.prems(1) have "extract_loop fv ps acc = Inr records"
      by (simp split: sum.splits)
    from Cons.IH [OF this Cons.prems(2)] show ?thesis .
  next
    case (Inr freight)
    show ?thesis
    proof (cases "extract_record p freight")
      case (Inl e)
      with Inr Cons.prems(1) have "extract_loop (Some freight) ps acc = Inr records"
        by (simp split: sum.splits)
      from Cons.IH [OF this Cons.prems(2)] show ?thesis .
    next
      case rec: (Inr ro)
      show ?thesis
      proof (cases ro)
        case None
        with rec Inr Cons.prems(1) have "extract_loop (Some freight) ps acc = Inr records"
          by simp
        from Cons.IH [OF this Cons.prems(2)] show ?thesis .
      next
        case (Some r)
        with rec Inr Cons.prems(1)
        have run: "extract_loop (Some freight) ps (acc @ [r]) = Inr records"
          by simp
        from rec Some have "P r" by (simp add: assms(3))
        with Cons.prems(2) have "\<forall>x \<in> set (acc @ [r]). P x" by simp
        from Cons.IH [OF run this] show ?thesis .
      qed
    qed
  qed
qed


text \<open>
  Away from proposals whose \<open>freight\<close> is present and not a dictionary, the handler
  never raises: the loop returns the records of the proposals in input order, those
  without a record left out; a proposal with fewer than two stops has no record.
\<close>

lemma dict_freight_get:
  assumes "dict_freight p"
  shows "\<exists>ff. dict_get p ''freight'' (JObj []) = Inr (JObj ff)"
proof (cases "dict_get p ''freight'' (JObj [])")
  case (Inl e)
  with assms show ?thesis by (simp add: dict_freight_def)
next
  case (Inr f)
  with assms show ?thesis by (cases f) (simp_all add: dict_freight_def)
qed

lemma except_handler_dict: "except_handler (Some (JObj ff)) = Inr ()"
  by (simp add: except_handler_def dict_get_def bind_e_def)

lemma extract_loop_dict_freights:
  assumes "\<forall>p \<in> set ps. dict_freight p"
  shows "extract_loop fv ps acc = Inr (acc @ List.map_filter record_of ps)"
  using assms
proof (induction ps arbitrary: fv acc)
  case Nil
  then show ?case by (simp add: List.map_filter_simps)
next
  case (Cons p ps)
  from Cons.prems have "dict_freight p" by simp
  then obtain ff where fr: "dict_get p ''freight'' (JObj []) = Inr (JObj ff)"
    using dict_freight_get by blast
  from Cons.prems have rest: "\<forall>q \<in> set ps. dict_freight q" by simp
  show ?case
  proof (cases "extract_record p (JObj ff)")
    case (Inl e)
    then show ?thesis
      by (simp add: fr except_handler_dict Cons.IH [OF rest] List.map_filter_simps record_of_def)
  next
    case (Inr ro)
    then show ?thesis
      by (cases ro)
         (simp_all add: fr Cons.IH [OF rest] List.map_filter_simps record_of_def)
  qed
qed

lemma extract_freight_data_dict_freights:
  "\<forall>p \<in> set ps. dict_freight p \<Longrightarrow>
   extract_freight_data ps = Inr (List.map_filter record_of ps)"
  by (simp add: extract_freight_data_def extract_loop_dict_freights)

lemma record_of_few_spots:
  assumes "map_of pf ''freight'' = Some (JObj ff)"
    and "price_information (JObj ff) = Inr (pr, cur)"
    and "capacity_information (JObj ff) = Inr (cap, cu)"
    and "map_of ff ''spots'' = Some (JArr spots)"
    and "length spots < 2"
  shows "record_of (JObj pf) = None"
  using assms
  by (simp add: record_of_def dict_get_def extract_record_def bind_e_def py_len_def)

text \<open>
  Claim C6. Normalisation is meant never to fail as a whole: an exception raised while one
  proposal is extracted is caught and only that proposal is skipped. The handler,
  however, calls \<open>freight.get\<close> again to build its message. For the proposal
  \<open>{"freight": null}\<close> the \<open>AttributeError\<close> of the \<open>try\<close> body is caught and the
  handler raises the same error anew; for a first proposal that is not a dictionary
  \<open>freight\<close> is still unbound in the handler. Either way the exception leaves
  \<open>extract_freight_data\<close>, also when well-formed proposals follow.
\<close>

theorem extract_freight_data_handler_raises:
  "extract_freight_data [JObj [(''freight'', JNull)]] = Inl AttributeError
   \<and> extract_freight_data
        [JObj [(''freight'', JNull)],
         JObj [(''freight'', JObj [(''spots'', JArr [JObj [], JObj []])])]] = Inl AttributeError
   \<and> extract_freight_data [JNull] = Inl UnboundLocalError"
  by (simp add: extract_freight_data_def dict_get_def extract_record_def bind_e_def
        except_handler_def)

text \<open>
  Claim C7. Every record that normalisation returns has
  \<open>route = loading_country + "-" + unloading_country\<close>, where both country codes are
  results of upper-casing; hence no lower-case letter occurs in the route.
\<close>

theorem route_derivation:
  assumes "extract_freight_data proposals = Inr records" and "r \<in> set records"
  shows "route r = loading_country r @ ''-'' @ unloading_country r
         \<and> (\<exists>raw. loading_country r = upper raw) \<and> (\<exists>raw. unloading_country r = upper raw)
         \<and> set (route r) \<inter> set ''abcdefghijklmnopqrstuvwxyz'' = {}"
proof -
  have "\<forall>r \<in> set records. route r = loading_country r @ ''-'' @ unloading_country r
         \<and> (\<exists>raw. loading_country r = upper raw) \<and> (\<exists>raw. unloading_country r = upper raw)"
    by (rule extract_loop_invariant [where acc = "[]" and fv = None and proposals = proposals])
       (use assms(1) in \<open>simp_all add: extract_freight_data_def extract_record_route\<close>)
  with assms(2) have *: "route r = loading_country r @ ''-'' @ unloading_country r
         \<and> (\<exists>raw. loading_country r = upper raw) \<and> (\<exists>raw. unloading_country r = upper raw)"
    by blast
  then obtain a b where "route r = upper a @ ''-'' @ upper b" by metis
  then have parts: "set (route r) = set (upper a) \<union> insert (CHR ''-'') (set (upper b))"
    by simp
  have dash: "CHR ''-'' \<notin> set ''abcdefghijklmnopqrstuvwxyz''"
    by simp
  have "set (route r) \<inter> set ''abcdefghijklmnopqrstuvwxyz'' = {}"
    unfolding parts using upper_no_lower [of a] upper_no_lower [of b] dash by blast
  with * show ?thesis by blast
qed

text \<open>
  The example of the specification: loading country \<open>"DE"\<close>, unloading country \<open>"fr"\<close>
  give the route \<open>"DE-FR"\<close>.
\<close>

theorem route_derivation_witness:
  "extract_freight_data
     [JObj [(''freight'', JObj [(''spots'', JArr
        [JObj [(''place'', JObj [(''address'', JObj [(''country'', JStr ''DE'')])])],
         JObj [(''place'', JObj [(''address'', JObj [(''country'', JStr ''fr'')])])]])])]]
     = Inr [sample_record ''DE'' ''FR'' (JNum 0)]
   \<and> route (sample_record ''DE'' ''FR'' (JNum 0) :: json freight_record) = ''DE-FR''
   \<and> loading_country (sample_record ''DE'' ''FR'' (JNum 0) :: json freight_record) = ''DE''
   \<and> unloading_country (sample_record ''DE'' ''FR'' (JNum 0) :: json freight_record) = ''FR''
   \<and> set ''DE-FR'' \<inter> set ''abcdefghijklmnopqrstuvwxyz'' = {}"
proof -
  have run: "extract_freight_data
     [JObj [(''freight'', JObj [(''spots'', JArr
        [JObj [(''place'', JObj [(''address'', JObj [(''country'', JStr ''DE'')])])],
         JObj [(''place'', JObj [(''address'', JObj [(''country'', JStr ''fr'')])])]])])]]
     = Inr [sample_record ''DE'' ''FR'' (JNum 0)]"
    by (simp add: extract_freight_data_def dict_get_def extract_record_def bind_e_def
          price_information_def capacity_information_def spot_address_def py_len_def
          py_first_def py_last_def py_upper_def upper_def upper_char_def sample_record_def)
  have mem: "sample_record ''DE'' ''FR'' (JNum 0) \<in> set [sample_record ''DE'' ''FR'' (JNum 0)]"
    by simp
  from route_derivation [OF run mem] run show ?thesis
    by (simp add: sample_record_def)
qed



section \<open>Properties of the detector\<close>

subsection \<open>Grouping\<close>

lemma group_insert_keys: "fst ` set (group_insert k v gs) = insert k (fst ` set gs)"
  by (induction k v gs rule: group_insert.induct) auto

lemma group_insert_sorted:
  "sorted_wrt (<) (map fst gs) \<Longrightarrow> sorted_wrt (<) (map fst (group_insert k v gs))"
proof (induction k v gs rule: group_insert.induct)
  case (1 k v)
  then show ?case by simp
next
  case (2 k v k' vs gs)
  have keys: "fst ` set (group_insert k v gs) = insert k (fst ` set gs)"
    by (rule group_insert_keys)
  from 2 show ?case
    by (auto simp: keys)
qed

lemma map_of_group_insert:
  "sorted_wrt (<) (map fst gs) \<Longrightarrow>
   map_of (group_insert k v gs) q =
     (if q = k then Some (case map_of gs k of None \<Rightarrow> [v] | Some vs \<Rightarrow> vs @ [v])
      else map_of gs q)"
proof (induction k v gs rule: group_insert.induct)
  case (1 k v)
  then show ?case by simp
next
  case (2 k v k' vs gs)
  show ?case
  proof (cases "k < k'")
    case True
    have "k \<notin> fst ` set gs"
      using 2(2) True by auto
    then have "map_of gs k = None"
      by (simp add: map_of_eq_None_iff)
    with True show ?thesis by auto
  next
    case False
    show ?thesis
    proof (cases "k = k'")
      case True
      then show ?thesis by auto
    next
      case neq: False
      from 2(2) have "sorted_wrt (<) (map fst gs)" by simp
      with 2(1) False neq
      have "map_of (group_insert k v gs) q =
              (if q = k then Some (case map_of gs k of None \<Rightarrow> [v] | Some vs \<Rightarrow> vs @ [v])
               else map_of gs q)"
        by simp
      with False neq show ?thesis by auto
    qed
  qed
qed

lemma groupby_route_snoc:
  "groupby_route (rs @ [r]) = group_insert (route r) (price r) (groupby_route rs)"
  by (simp add: groupby_route_def)

lemma groupby_route_sorted: "sorted_wrt (<) (map fst (groupby_route rs))"
  by (induction rs rule: rev_induct)
     (simp_all add: groupby_route_snoc group_insert_sorted, simp add: groupby_route_def)


lemma map_of_groupby_route:
  "map_of (groupby_route rs) k =
     (if k \<in> route ` set rs then Some (map price (filter (\<lambda>r. route r = k) rs)) else None)"
proof (induction rs arbitrary: k rule: rev_induct)
  case Nil
  then show ?case by (simp add: groupby_route_def)
next
  case (snoc r rs)
  show ?case
    by (auto simp: groupby_route_snoc map_of_group_insert groupby_route_sorted snoc
          filter_empty_conv image_iff)
qed

lemma groupby_route_distinct: "distinct (map fst (groupby_route rs))"
  using groupby_route_sorted [of rs] by (simp add: strict_sorted_iff)

lemma groupby_route_member:
  "(k, ps) \<in> set (groupby_route rs) \<longleftrightarrow>
     k \<in> route ` set rs \<and> ps = map price (filter (\<lambda>r. route r = k) rs)"
proof -
  have "(k, ps) \<in> set (groupby_route rs) \<longleftrightarrow> map_of (groupby_route rs) k = Some ps"
    by (simp add: groupby_route_distinct)
  then show ?thesis by (auto simp: map_of_groupby_route)
qed

lemma route_analysis_routes:
  "map group_route (route_analysis fd) = map fst (groupby_route fd)"
  by (simp add: route_analysis_def analyse_group_def Let_def comp_def)

lemma route_analysis_row:
  assumes "row \<in> set (route_analysis fd)"
  shows "\<exists>ps. ps = map price (filter (\<lambda>r. route r = group_route row) fd) \<and> ps \<noteq> []
           \<and> row = analyse_group (group_route row, ps)"
proof -
  from assms obtain k ps where g: "(k, ps) \<in> set (groupby_route fd)"
      and r: "row = analyse_group (k, ps)"
    by (auto simp: route_analysis_def)
  from r have k: "group_route row = k" by (simp add: analyse_group_def Let_def)
  from g have "k \<in> route ` set fd" and ps: "ps = map price (filter (\<lambda>r. route r = k) fd)"
    by (simp_all add: groupby_route_member)
  then have "ps \<noteq> []" by (auto simp: filter_empty_conv)
  with k ps r show ?thesis by simp
qed

lemma route_analysis_Nil: "route_analysis [] = []"
  by (simp add: route_analysis_def groupby_route_def)

lemma route_analysis_sorted:
  "sorted_wrt (\<lambda>a b. group_route a < group_route b) (route_analysis fd)"
  using groupby_route_sorted [of fd]
  by (simp add: route_analysis_routes [symmetric] sorted_wrt_map)

subsection \<open>Statistics of a group\<close>



subsection \<open>The detection filter\<close>

lemma stable_sort_desc_descending: "descending_sort stable_sort_desc"
proof -
  have "sorted_wrt (\<lambda>a b. col b \<le> col a) (stable_sort_desc col rows)"
    for col :: "route_stats \<Rightarrow> rat" and rows
  proof -
    have "sorted (map (\<lambda>row. - col row) (sort_key (\<lambda>row. - col row) rows))"
      by (rule sorted_sort_key)
    then show ?thesis
      by (simp add: stable_sort_desc_def sorted_map)
  qed
  then show ?thesis
    by (simp add: descending_sort_def stable_sort_desc_def)
qed

lemma descending_sort_mset:
  "descending_sort sv \<Longrightarrow> mset (sv col rows) = mset rows"
  by (simp add: descending_sort_def)

lemma descending_sort_sorted:
  "descending_sort sv \<Longrightarrow> sorted_wrt (\<lambda>a b. col b \<le> col a) (sv col rows)"
  by (simp add: descending_sort_def)

lemma descending_sort_Nil: "descending_sort sv \<Longrightarrow> sv col [] = []"
  using descending_sort_mset [of sv col "[]"] by simp

lemma detect_as_sort:
  assumes "descending_sort sv"
  shows "detect_arbitrage_opportunities sv fd =
           sv price_volatility
             (filter (\<lambda>row. 1 / 5 < price_volatility row \<and> 2 \<le> price_count row)
                (route_analysis fd))"
  using assms
  by (simp add: detect_arbitrage_opportunities_def route_analysis_Nil descending_sort_Nil)

text \<open>
  Claim C2. Whatever descending sort \<open>sort_values\<close> is, \<open>detect_arbitrage_opportunities\<close>
  returns exactly the rows of the analysis whose volatility is strictly greater than 0.2
  and whose count is at least 2: a row with volatility exactly 0.2 and a row with count 1
  are left out, every returned row has volatility above 0.2 and at least two records on
  its route; and the empty input gives the empty list.
\<close>

theorem detect_threshold_filter:
  assumes "descending_sort sv"
  shows "detect_arbitrage_opportunities sv [] = [] \<and>
   mset (detect_arbitrage_opportunities sv fd) =
     filter_mset (\<lambda>row. 1 / 5 < price_volatility row \<and> 2 \<le> price_count row)
       (mset (route_analysis fd)) \<and>
   (\<forall>row \<in> set (route_analysis fd).
      price_volatility row = 1 / 5 \<or> price_count row = 1 \<longrightarrow>
      row \<notin> set (detect_arbitrage_opportunities sv fd)) \<and>
   (\<forall>row \<in> set (detect_arbitrage_opportunities sv fd).
      1 / 5 < price_volatility row \<and>
      2 \<le> length (filter (\<lambda>r. route r = group_route row) fd))"
proof (intro conjI ballI)
  show "detect_arbitrage_opportunities sv [] = []"
    by (simp add: detect_arbitrage_opportunities_def)
  show m: "mset (detect_arbitrage_opportunities sv fd) =
     filter_mset (\<lambda>row. 1 / 5 < price_volatility row \<and> 2 \<le> price_count row)
       (mset (route_analysis fd))"
    by (simp add: detect_as_sort [OF assms] descending_sort_mset [OF assms])
  have s: "set (detect_arbitrage_opportunities sv fd) =
     {row \<in> set (route_analysis fd). 1 / 5 < price_volatility row \<and> 2 \<le> price_count row}"
    using arg_cong [OF m, of set_mset] by simp
  show "price_volatility row = 1 / 5 \<or> price_count row = 1 \<longrightarrow>
      row \<notin> set (detect_arbitrage_opportunities sv fd)" for row
    unfolding s by auto
  show "1 / 5 < price_volatility row"
    if "row \<in> set (detect_arbitrage_opportunities sv fd)" for row
    using that unfolding s by simp
  show "2 \<le> length (filter (\<lambda>r. route r = group_route row) fd)"
    if "row \<in> set (detect_arbitrage_opportunities sv fd)" for row
  proof -
    from that have mem: "row \<in> set (route_analysis fd)" and c: "2 \<le> price_count row"
      unfolding s by simp_all
    from route_analysis_row [OF mem] obtain ps
      where ps: "ps = map price (filter (\<lambda>r. route r = group_route row) fd)"
        and row: "row = analyse_group (group_route row, ps)"
      by blast
    have "price_count row = length ps"
      by (subst row) (simp add: analyse_group_def Let_def)
    with c ps show ?thesis by simp
  qed
qed

theorem detect_threshold_filter_witness:
  "route_analysis example_threshold
     = [\<lparr> group_route = ''ES-IT'', price_mean = 100, price_min = 90, price_max = 110,
           price_count = 2, price_volatility = 1 / 5 \<rparr>,
        \<lparr> group_route = ''FR-NL'', price_mean = 500, price_min = 500, price_max = 500,
           price_count = 1, price_volatility = 0 \<rparr>,
        \<lparr> group_route = ''PL-DE'', price_mean = 11333 / 100, price_min = 80, price_max = 160,
           price_count = 3, price_volatility = 353 / 500 \<rparr>]
   \<and> detect_arbitrage_opportunities stable_sort_desc example_threshold
     = [\<lparr> group_route = ''PL-DE'', price_mean = 11333 / 100, price_min = 80, price_max = 160,
           price_count = 3, price_volatility = 353 / 500 \<rparr>]
   \<and> \<lparr> group_route = ''ES-IT'', price_mean = 100, price_min = 90, price_max = 110,
         price_count = 2, price_volatility = 1 / 5 \<rparr>
       \<notin> set (detect_arbitrage_opportunities stable_sort_desc example_threshold)
   \<and> \<lparr> group_route = ''FR-NL'', price_mean = 500, price_min = 500, price_max = 500,
         price_count = 1, price_volatility = 0 \<rparr>
       \<notin> set (detect_arbitrage_opportunities stable_sort_desc example_threshold)"
proof -
  have ra: "route_analysis example_threshold
     = [\<lparr> group_route = ''ES-IT'', price_mean = 100, price_min = 90, price_max = 110,
           price_count = 2, price_volatility = 1 / 5 \<rparr>,
        \<lparr> group_route = ''FR-NL'', price_mean = 500, price_min = 500, price_max = 500,
           price_count = 1, price_volatility = 0 \<rparr>,
        \<lparr> group_route = ''PL-DE'', price_mean = 11333 / 100, price_min = 80, price_max = 160,
           price_count = 3, price_volatility = 353 / 500 \<rparr>]"
    by code_simp
  have det: "detect_arbitrage_opportunities stable_sort_desc example_threshold
     = [\<lparr> group_route = ''PL-DE'', price_mean = 11333 / 100, price_min = 80, price_max = 160,
           price_count = 3, price_volatility = 353 / 500 \<rparr>]"
    by code_simp
  from detect_threshold_filter [OF stable_sort_desc_descending, of example_threshold]
  have excl: "\<forall>row \<in> set (route_analysis example_threshold).
      price_volatility row = 1 / 5 \<or> price_count row = 1 \<longrightarrow>
      row \<notin> set (detect_arbitrage_opportunities stable_sort_desc example_threshold)"
    by (rule conjunct2 [THEN conjunct2, THEN conjunct1])
  have es: "\<lparr> group_route = ''ES-IT'', price_mean = 100, price_min = 90, price_max = 110,
         price_count = 2, price_volatility = 1 / 5 \<rparr>
       \<notin> set (detect_arbitrage_opportunities stable_sort_desc example_threshold)"
    by (rule bspec [OF excl, THEN mp]) (simp_all add: ra)
  have fr: "\<lparr> group_route = ''FR-NL'', price_mean = 500, price_min = 500, price_max = 500,
         price_count = 1, price_volatility = 0 \<rparr>
       \<notin> set (detect_arbitrage_opportunities stable_sort_desc example_threshold)"
    by (rule bspec [OF excl, THEN mp]) (simp_all add: ra)
  show ?thesis
    by (intro conjI) (fact ra det es fr)+
qed

subsection \<open>Order of the result\<close>

text \<open>
  The grouping forgets how the routes are interleaved in the input: two inputs that give
  every route the same prices in the same order have the same analysis frame.
\<close>

lemma groupby_route_same_groups:
  assumes "\<forall>k. map price (filter (\<lambda>r. route r = k) fd') =
               map price (filter (\<lambda>r. route r = k) fd)"
  shows "groupby_route fd' = groupby_route fd"
proof -
  have keys: "k \<in> route ` set fd' \<longleftrightarrow> k \<in> route ` set fd" for k
  proof -
    from assms have "map price (filter (\<lambda>r. route r = k) fd') =
                     map price (filter (\<lambda>r. route r = k) fd)"
      by blast
    then have "length (filter (\<lambda>r. route r = k) fd') = length (filter (\<lambda>r. route r = k) fd)"
      by (metis length_map)
    then have "filter (\<lambda>r. route r = k) fd' = [] \<longleftrightarrow> filter (\<lambda>r. route r = k) fd = []"
      by (metis length_0_conv)
    then have "(\<exists>x \<in> set fd'. k = route x) \<longleftrightarrow> (\<exists>x \<in> set fd. k = route x)"
      unfolding filter_empty_conv by metis
    then show ?thesis
      by (simp only: image_iff)
  qed
  have "map_of (groupby_route fd') = map_of (groupby_route fd)"
    by (rule ext) (simp add: map_of_groupby_route keys assms)
  then have sets: "set (groupby_route fd') = set (groupby_route fd)"
    by (simp add: map_of_inject_set groupby_route_distinct)
  have inj: "inj_on fst (set (groupby_route fd') \<union> set (groupby_route fd))"
    unfolding sets using groupby_route_distinct [of fd]
    by (simp add: distinct_map)
  have srt: "sorted (map fst (groupby_route g))" for g
    using groupby_route_sorted [of g] by (simp add: strict_sorted_iff)
  show ?thesis
    by (rule map_sorted_distinct_set_unique [OF inj srt groupby_route_distinct
              srt groupby_route_distinct sets])
qed

lemma mset_pair_cases:
  assumes "mset xs = {#a, b#}"
  shows "xs = [a, b] \<or> xs = [b, a]"
proof -
  from assms have "size (mset xs) = 2" by simp
  then have "length xs = 2" by simp
  then obtain x y where xs: "xs = [x, y]"
    by (cases xs; cases "tl xs") auto
  with assms have "{#x, y#} = {#a, b#}" by simp
  then have "(x = a \<and> y = b) \<or> (x = b \<and> y = a)"
    by (auto simp: add_eq_conv_ex)
  with xs show ?thesis by auto
qed

text \<open>
  Whatever the sort does with ties, the order in which routes are first seen cannot be the
  order of the result: \<open>example_ties\<close> and \<open>example_ties_swapped\<close> have the same frame,
  two rows of volatility 0.4, hence the same result, and opposite first-seen orders.
\<close>

lemma detect_ties_first_seen_fails_for_any_sort:
  assumes "descending_sort sv"
  shows "\<not> (desc_ties_first_seen example_ties
               (detect_arbitrage_opportunities sv example_ties) \<and>
            desc_ties_first_seen example_ties_swapped
               (detect_arbitrage_opportunities sv example_ties_swapped))"
proof -
  define de where "de = \<lparr> group_route = ''DE-FR'', price_mean = 125, price_min = 100,
     price_max = 150, price_count = 2, price_volatility = 2 / 5 \<rparr>"
  define pl where "pl = \<lparr> group_route = ''PL-DE'', price_mean = 125, price_min = 100,
     price_max = 150, price_count = 2, price_volatility = 2 / 5 \<rparr>"
  have f1: "filter (\<lambda>row. 1 / 5 < price_volatility row \<and> 2 \<le> price_count row)
              (route_analysis example_ties) = [de, pl]"
    unfolding de_def pl_def by code_simp
  have f2: "filter (\<lambda>row. 1 / 5 < price_volatility row \<and> 2 \<le> price_count row)
              (route_analysis example_ties_swapped) = [de, pl]"
    unfolding de_def pl_def by code_simp
  have same: "detect_arbitrage_opportunities sv example_ties_swapped =
              detect_arbitrage_opportunities sv example_ties"
    by (simp only: detect_as_sort [OF assms] f1 f2)
  have "mset (detect_arbitrage_opportunities sv example_ties) = {#de, pl#}"
    by (simp only: detect_as_sort [OF assms] f1 descending_sort_mset [OF assms] mset.simps)
  then have "detect_arbitrage_opportunities sv example_ties = [de, pl]
           \<or> detect_arbitrage_opportunities sv example_ties = [pl, de]"
    by (rule mset_pair_cases)
  moreover have "\<not> desc_ties_first_seen example_ties [de, pl]"
    unfolding de_def pl_def by code_simp
  moreover have "\<not> desc_ties_first_seen example_ties_swapped [pl, de]"
    unfolding de_def pl_def by code_simp
  ultimately show ?thesis
    unfolding same by auto
qed

text \<open>
  Claim C3, as the specification states it: descending volatility, ties in the order in
  which the routes were first seen in the input. In \<open>example_ties\<close> the route PL-DE is
  seen before DE-FR and both have volatility 0.4; the grouping orders its keys, and on a
  frame of two rows the sort leaves them as they are, so the result lists DE-FR first.
\<close>

theorem detect_ties_first_seen_counterexample:
  "\<not> desc_ties_first_seen example_ties
       (detect_arbitrage_opportunities stable_sort_desc example_ties)"
  by code_simp

text \<open>
  Claim C3, amended: whatever descending sort \<open>sort_values\<close> is, the result is sorted by
  volatility in descending order. The order of rows of equal volatility is left to the
  sort and does not follow the order in which the routes were first seen: an input that
  gives every route the same prices in the same order, the routes interleaved in any
  other way, has the same result.
\<close>

theorem detect_sorted_descending:
  assumes "descending_sort sv"
  shows "sorted_wrt (\<lambda>a b. price_volatility b \<le> price_volatility a)
           (detect_arbitrage_opportunities sv fd) \<and>
         ((\<forall>k. map price (filter (\<lambda>r. route r = k) fd') =
                map price (filter (\<lambda>r. route r = k) fd)) \<longrightarrow>
          detect_arbitrage_opportunities sv fd' = detect_arbitrage_opportunities sv fd)"
proof (intro conjI impI)
  show "sorted_wrt (\<lambda>a b. price_volatility b \<le> price_volatility a)
           (detect_arbitrage_opportunities sv fd)"
    by (simp add: detect_as_sort [OF assms] descending_sort_sorted [OF assms])
next
  assume "\<forall>k. map price (filter (\<lambda>r. route r = k) fd') =
              map price (filter (\<lambda>r. route r = k) fd)"
  then have "groupby_route fd' = groupby_route fd"
    by (rule groupby_route_same_groups)
  then have "route_analysis fd' = route_analysis fd"
    by (simp add: route_analysis_def)
  then show "detect_arbitrage_opportunities sv fd' = detect_arbitrage_opportunities sv fd"
    by (simp add: detect_as_sort [OF assms])
qed

theorem detect_sorted_descending_witness:
  "detect_arbitrage_opportunities stable_sort_desc example_threshold
     = [\<lparr> group_route = ''PL-DE'', price_mean = 11333 / 100, price_min = 80, price_max = 160,
           price_count = 3, price_volatility = 353 / 500 \<rparr>]
   \<and> sorted_wrt (\<lambda>a b. price_volatility b \<le> price_volatility a)
        (detect_arbitrage_opportunities stable_sort_desc example_ties)
   \<and> detect_arbitrage_opportunities stable_sort_desc example_ties_swapped
     = detect_arbitrage_opportunities stable_sort_desc example_ties
   \<and> detect_arbitrage_opportunities stable_sort_desc example_ties
     = [\<lparr> group_route = ''DE-FR'', price_mean = 125, price_min = 100, price_max = 150,
           price_count = 2, price_volatility = 2 / 5 \<rparr>,
        \<lparr> group_route = ''PL-DE'', price_mean = 125, price_min = 100, price_max = 150,
           price_count = 2, price_volatility = 2 / 5 \<rparr>]"
proof -
  have thr: "detect_arbitrage_opportunities stable_sort_desc example_threshold
     = [\<lparr> group_route = ''PL-DE'', price_mean = 11333 / 100, price_min = 80, price_max = 160,
           price_count = 3, price_volatility = 353 / 500 \<rparr>]"
    by code_simp
  have det: "detect_arbitrage_opportunities stable_sort_desc example_ties
     = [\<lparr> group_route = ''DE-FR'', price_mean = 125, price_min = 100, price_max = 150,
           price_count = 2, price_volatility = 2 / 5 \<rparr>,
        \<lparr> group_route = ''PL-DE'', price_mean = 125, price_min = 100, price_max = 150,
           price_count = 2, price_volatility = 2 / 5 \<rparr>]"
    by code_simp
  have groups: "\<forall>k. map price (filter (\<lambda>r. route r = k) example_ties_swapped) =
                    map price (filter (\<lambda>r. route r = k) example_ties)"
    by (simp add: example_ties_def example_ties_swapped_def sample_record_def)
  note inst = detect_sorted_descending
               [OF stable_sort_desc_descending, of example_ties example_ties_swapped]
  from inst have srt: "sorted_wrt (\<lambda>a b. price_volatility b \<le> price_volatility a)
        (detect_arbitrage_opportunities stable_sort_desc example_ties)"
    by (rule conjunct1)
  from inst groups have same: "detect_arbitrage_opportunities stable_sort_desc example_ties_swapped
     = detect_arbitrage_opportunities stable_sort_desc example_ties"
    by (rule conjunct2 [THEN mp])
  show ?thesis
    by (intro conjI) (fact thr srt same det)+
qed

section \<open>Properties of the token cache\<close>




section \<open>Properties of the route details\<close>

lemma get_route_details_not_found:
  "filter (\<lambda>f. route f = upper route_code) freight_data = [] \<Longrightarrow>
   get_route_details freight_data route_code = RouteNotFound route_code"
  by (simp add: get_route_details_def)

lemma get_route_details_found:
  assumes "get_route_details freight_data route_code = RouteFound u fs stats"
  shows "u = upper route_code \<and> fs = filter (\<lambda>f. route f = upper route_code) freight_data
         \<and> fs \<noteq> [] \<and> count_stat stats = length fs"
  using assms
  by (auto simp: get_route_details_def Let_def bind_e_def py_div_def
           split: if_splits sum.splits)

lemma get_route_details_statistics:
  assumes "fs = filter (\<lambda>f. route f = upper route_code) freight_data"
    and "fs \<noteq> []"
    and "py_numbers (map price fs) = Inr ps"
    and "sum_list ps \<noteq> 0"
  shows "get_route_details freight_data route_code =
           RouteFound (upper route_code) fs
             \<lparr> count_stat = length fs,
               min_price = Min (set ps),
               max_price = Max (set ps),
               avg_price = np_round 2 (sum_list ps / of_nat (length ps)),
               price_spread = Max (set ps) - Min (set ps),
               volatility = np_round 3 ((Max (set ps) - Min (set ps)) /
                                         (sum_list ps / of_nat (length ps))) \<rparr>"
proof -
  have "length ps = length fs"
    using assms(3)
  proof (induction fs arbitrary: ps)
    case Nil
    then show ?case by simp
  next
    case (Cons f fs)
    then show ?case
      by (auto simp: bind_e_def split: sum.splits)
  qed
  with assms(2) have "ps \<noteq> []" by auto
  then have "sum_list ps / of_nat (length ps) \<noteq> 0"
    using assms(4) by simp
  then show ?thesis
    using assms(1,2,3)
    by (simp add: get_route_details_def Let_def bind_e_def py_div_def)
qed

text \<open>
  Claim C8. A zero price mean is to be replaced by 1 before dividing, in the detector and
  in the route details. The detector does so: one offer without a price (price 0) gives a
  row with volatility 0. \<open>get_route_details\<close> divides by the mean as it is: for the same
  offer the division raises \<open>ZeroDivisionError\<close>, and the request ends in the failure
  answer of the enclosing handler.
\<close>

theorem route_details_zero_mean_raises:
  "extract_freight_data
     [JObj [(''freight'', JObj [(''spots'', JArr
        [JObj [(''place'', JObj [(''address'', JObj [(''country'', JStr ''DE'')])])],
         JObj [(''place'', JObj [(''address'', JObj [(''country'', JStr ''FR'')])])]])])]]
     = Inr [sample_record ''DE'' ''FR'' (JNum 0)]
   \<and> get_route_details [sample_record ''DE'' ''FR'' (JNum 0)] ''de-fr''
     = RouteError ZeroDivisionError
   \<and> route_analysis [sample_record ''DE'' ''FR'' 0]
     = [\<lparr> group_route = ''DE-FR'', price_mean = 0, price_min = 0, price_max = 0,
           price_count = 1, price_volatility = 0 \<rparr>]"
proof (intro conjI)
  show "extract_freight_data
     [JObj [(''freight'', JObj [(''spots'', JArr
        [JObj [(''place'', JObj [(''address'', JObj [(''country'', JStr ''DE'')])])],
         JObj [(''place'', JObj [(''address'', JObj [(''country'', JStr ''FR'')])])]])])]]
     = Inr [sample_record ''DE'' ''FR'' (JNum 0)]"
    by (simp add: extract_freight_data_def dict_get_def extract_record_def bind_e_def
          price_information_def capacity_information_def spot_address_def py_len_def
          py_first_def py_last_def py_upper_def upper_def upper_char_def sample_record_def)
  show "get_route_details [sample_record ''DE'' ''FR'' (JNum 0)] ''de-fr''
     = RouteError ZeroDivisionError"
    by (simp add: get_route_details_def sample_record_def upper_def upper_char_def bind_e_def
          py_number_def py_div_def)
  show "route_analysis [sample_record ''DE'' ''FR'' 0]
     = [\<lparr> group_route = ''DE-FR'', price_mean = 0, price_min = 0, price_max = 0,
           price_count = 1, price_volatility = 0 \<rparr>]"
    by code_simp
qed

text \<open>
  Claim C9. The route details select the records whose route equals the upper-cased
  route code, answer ``not found'' when there is none, and are to return the statistics
  of the route when there is one. With two matching offers of price 0 among the records
  the selection is not empty, yet the answer is the failure built from the
  \<open>ZeroDivisionError\<close> of the volatility, not the statistics.
\<close>

theorem route_details_match_without_statistics:
  "filter (\<lambda>f. route f = upper ''pl-de'')
      [sample_record ''PL'' ''DE'' (JNum 0), sample_record ''DE'' ''FR'' (JNum 80),
       sample_record ''PL'' ''DE'' (JNum 0)]
     = [sample_record ''PL'' ''DE'' (JNum 0), sample_record ''PL'' ''DE'' (JNum 0)]
   \<and> get_route_details
      [sample_record ''PL'' ''DE'' (JNum 0), sample_record ''DE'' ''FR'' (JNum 80),
       sample_record ''PL'' ''DE'' (JNum 0)] ''pl-de''
     = RouteError ZeroDivisionError"
  by (simp add: get_route_details_def sample_record_def upper_def upper_char_def bind_e_def
        py_number_def py_div_def)

end
